theory Spec2Isabelle
  imports Complex_Main "HOL-Library.Word"
begin

unbundle bit_operations_syntax

section \<open>DynamicSpatialHash: data model\<close>

text \<open>
  The class \<^verbatim>\<open>DynamicSpatialHash\<close> of \<^verbatim>\<open>src/dynamic-spatial-hash.js\<close> keeps a private
  \<^verbatim>\<open>#cellSize\<close> (the reciprocal of the configured cell size), a public \<^verbatim>\<open>overflow\<close> and a
  private \<^verbatim>\<open>#table\<close>, a \<^verbatim>\<open>Map\<close> from 32-bit keys to \<^verbatim>\<open>Set\<close>s of caller-owned objects. On
  every object it indexes it writes the property \<^verbatim>\<open>__spatialHashes\<close>.

  Numbers: JavaScript numbers are IEEE doubles. The model takes the coordinates and
  extents of the objects as exact reals and cell coordinates as exact integers; it agrees
  with the program wherever the doubles involved are exact. A value assigned to
  \<^verbatim>\<open>cellSize\<close> may also be \<^verbatim>\<open>NaN\<close> or an infinity, and the stored \<^verbatim>\<open>#cellSize\<close> may be
  \<^verbatim>\<open>NaN\<close>. The concrete inputs used below are exact in doubles, except the reciprocal of
  the cell size 3 in the last section, where the rounded products have the same floors;
  that section also states the computation with every result rounded.

  Objects are compared by identity (\<^verbatim>\<open>object === otherobject\<close>), so an object is a
  reference into a store of records. A bucket (a \<^verbatim>\<open>Set\<close> of objects) is only ever tested,
  extended, shrunk and poured into a result, so it is a HOL set. The \<^verbatim>\<open>Set\<close> of keys built
  by \<^verbatim>\<open>getHashFromObject\<close> is iterated by \<^verbatim>\<open>forEach\<close> with a body that updates the table, so
  it is kept as the list of its elements in insertion order.
\<close>

type_synonym key = "32 word"
type_synonym ref = nat

datatype number = Finite real | NaN

record object =
  obj_x :: real
  obj_y :: real
  obj_width :: real
  obj_height :: real
  spatialHashes :: "key list option"

record world =
  cellSize :: number
  overflow :: int
  table :: "key \<rightharpoonup> ref set"
  objects :: "ref \<Rightarrow> object"

datatype jsvalue =
    JSNumber real | JSNaN | JSInfinity | JSNegInfinity
  | JSString string | JSBoolean bool | JSUndefined | JSNull

datatype error = TypeError | RangeError

datatype ret = Undefined | This

section \<open>The operations\<close>

text \<open>
  \<^verbatim>\<open>hash(x, y) { return ((x * 16777619) ^ (y * 16777619)) >>> 0; }\<close>
  The operator \<^verbatim>\<open>^\<close> reduces both products modulo \<open>2 ^ 32\<close> and \<^verbatim>\<open>>>> 0\<close> reads the 32
  bits of the result as unsigned. The products are exact in doubles for cell coordinates
  up to \<open>5 * 10 ^ 8\<close> in absolute value.
\<close>

definition hash :: "int \<Rightarrow> int \<Rightarrow> key" where
  "hash x y = word_of_int (x * 16777619) XOR word_of_int (y * 16777619)"

text \<open>\<^verbatim>\<open>Set.prototype.add\<close> on the elements in insertion order.\<close>

definition set_add :: "'a \<Rightarrow> 'a list \<Rightarrow> 'a list" where
  "set_add v xs = (if v \<in> set xs then xs else xs @ [v])"

text \<open>
  \<^verbatim>\<open>Math.floor((x - width * 0.5) * this.#cellSize) - this.overflow\<close> and its three
  companions. Each of them is \<^verbatim>\<open>NaN\<close> (here \<open>None\<close>) when \<^verbatim>\<open>#cellSize\<close> is.
\<close>

definition minX :: "object \<Rightarrow> world \<Rightarrow> int option" where
  "minX ob w =
     (case cellSize w of
        NaN \<Rightarrow> None
      | Finite c \<Rightarrow> Some (\<lfloor>(obj_x ob - obj_width ob * 0.5) * c\<rfloor> - overflow w))"

definition minY :: "object \<Rightarrow> world \<Rightarrow> int option" where
  "minY ob w =
     (case cellSize w of
        NaN \<Rightarrow> None
      | Finite c \<Rightarrow> Some (\<lfloor>(obj_y ob - obj_height ob * 0.5) * c\<rfloor> - overflow w))"

definition maxX :: "object \<Rightarrow> world \<Rightarrow> int option" where
  "maxX ob w =
     (case cellSize w of
        NaN \<Rightarrow> None
      | Finite c \<Rightarrow> Some (\<lfloor>(obj_x ob + obj_width ob * 0.5) * c\<rfloor> + overflow w))"

definition maxY :: "object \<Rightarrow> world \<Rightarrow> int option" where
  "maxY ob w =
     (case cellSize w of
        NaN \<Rightarrow> None
      | Finite c \<Rightarrow> Some (\<lfloor>(obj_y ob + obj_height ob * 0.5) * c\<rfloor> + overflow w))"

text \<open>
  The values that the variable of \<^verbatim>\<open>for (let x = lo; x <= hi; x++)\<close> takes. A comparison
  with \<^verbatim>\<open>NaN\<close> is false, so the loop does not run when a bound is \<^verbatim>\<open>NaN\<close>.
\<close>

definition for_range :: "int option \<Rightarrow> int option \<Rightarrow> int list" where
  "for_range lo hi =
     (case lo of None \<Rightarrow> [] | Some a \<Rightarrow> (case hi of None \<Rightarrow> [] | Some b \<Rightarrow> [a..b]))"

text \<open>
  \<^verbatim>\<open>getHashFromObject\<close>: the two nested \<^verbatim>\<open>for\<close> loops run from \<open>minX\<close> to \<open>maxX\<close> and
  from \<open>minY\<close> to \<open>maxY\<close> and add each key to the set under construction.
\<close>

definition getHashFromObject :: "object \<Rightarrow> world \<Rightarrow> key list" where
  "getHashFromObject ob w =
     fold (\<lambda>x hashes.
             fold (\<lambda>y hashes. set_add (hash x y) hashes) (for_range (minY ob w) (maxY ob w)) hashes)
       (for_range (minX ob w) (maxX ob w)) []"

text \<open>
  The setter of \<^verbatim>\<open>cellSize\<close>: both checks throw before the assignment. A result pairs
  the exception raised (if any) with the world as the call left it. \<^verbatim>\<open>typeof NaN\<close> is
  \<^verbatim>\<open>'number'\<close> and \<^verbatim>\<open>NaN <= 0\<close> is false, so \<^verbatim>\<open>NaN\<close> passes both checks and
  \<^verbatim>\<open>1 / NaN\<close>, which is \<^verbatim>\<open>NaN\<close>, is stored; \<^verbatim>\<open>1 / Infinity\<close> is 0.
\<close>

definition typeof_number :: "jsvalue \<Rightarrow> bool" where
  "typeof_number v =
     (case v of
        JSNumber r \<Rightarrow> True | JSNaN \<Rightarrow> True | JSInfinity \<Rightarrow> True | JSNegInfinity \<Rightarrow> True
      | _ \<Rightarrow> False)"

definition set_cellSize :: "jsvalue \<Rightarrow> world \<Rightarrow> error option \<times> world" where
  "set_cellSize v w =
     (case v of
        JSNumber r \<Rightarrow>
          if r \<le> 0 then (Some RangeError, w) else (None, w\<lparr>cellSize := Finite (1 / r)\<rparr>)
      | JSNaN \<Rightarrow> (None, w\<lparr>cellSize := NaN\<rparr>)
      | JSInfinity \<Rightarrow> (None, w\<lparr>cellSize := Finite 0\<rparr>)
      | JSNegInfinity \<Rightarrow> (Some RangeError, w)
      | _ \<Rightarrow> (Some TypeError, w))"

definition get_cellSize :: "world \<Rightarrow> number" where
  "get_cellSize w = cellSize w"

text \<open>
  The constructor: the field initialisers give \<^verbatim>\<open>#cellSize = 1 / 32\<close> and an empty table,
  the default parameter replaces \<^verbatim>\<open>undefined\<close> by 32, the setter runs, then
  \<^verbatim>\<open>overflow = 0\<close>. The store of caller-owned objects is a parameter.
\<close>

definition new_DynamicSpatialHash :: "jsvalue \<Rightarrow> (ref \<Rightarrow> object) \<Rightarrow> error + world" where
  "new_DynamicSpatialHash arg objs =
     (let v = (if arg = JSUndefined then JSNumber 32 else arg);
          w0 = \<lparr>cellSize = Finite (1 / 32), overflow = 0, table = Map.empty, objects = objs\<rparr>
      in case set_cellSize v w0 of
           (Some e, w1) \<Rightarrow> Inl e
         | (None, w1) \<Rightarrow> Inr (w1\<lparr>overflow := 0\<rparr>))"

text \<open>The body of the \<^verbatim>\<open>forEach\<close> in \<^verbatim>\<open>add\<close>.\<close>

definition add_step :: "ref \<Rightarrow> key \<Rightarrow> (key \<rightharpoonup> ref set) \<Rightarrow> (key \<rightharpoonup> ref set)" where
  "add_step obj h t =
     (let t1 = (if t h = None then t(h \<mapsto> {}) else t)
      in case t1 h of None \<Rightarrow> t1 | Some b \<Rightarrow> t1(h \<mapsto> insert obj b))"

definition add :: "ref \<Rightarrow> world \<Rightarrow> world" where
  "add obj w =
     (let hashes = getHashFromObject (objects w obj) w;
          w1 = w\<lparr>objects := (objects w)(obj := (objects w obj)\<lparr>spatialHashes := Some hashes\<rparr>)\<rparr>
      in w1\<lparr>table := fold (add_step obj) hashes (table w1)\<rparr>)"

definition clear :: "key \<Rightarrow> world \<Rightarrow> world" where
  "clear h w = w\<lparr>table := (table w)(h := None)\<rparr>"

definition clearAll :: "world \<Rightarrow> world" where
  "clearAll w = w\<lparr>table := Map.empty\<rparr>"

definition get :: "key \<Rightarrow> world \<Rightarrow> ref set option" where
  "get h w = table w h"

text \<open>The body of the \<^verbatim>\<open>forEach\<close> in \<^verbatim>\<open>delete\<close>.\<close>

definition delete_step :: "ref \<Rightarrow> key \<Rightarrow> world \<Rightarrow> world" where
  "delete_step obj h w =
     (case table w h of
        None \<Rightarrow> w
      | Some b \<Rightarrow>
          (let w1 = w\<lparr>table := (table w)(h \<mapsto> b - {obj})\<rparr>
           in if b - {obj} = {} then clear h w1 else w1))"

text \<open>
  \<^verbatim>\<open>delete\<close> returns \<^verbatim>\<open>undefined\<close> from its guard (a bare \<^verbatim>\<open>return;\<close>) and
  \<^verbatim>\<open>this\<close> at its end.
\<close>

definition delete :: "ref \<Rightarrow> world \<Rightarrow> ret \<times> world" where
  "delete obj w =
     (case spatialHashes (objects w obj) of
        None \<Rightarrow> (Undefined, w)
      | Some hashes \<Rightarrow>
          (let w1 = fold (delete_step obj) hashes w
           in (This, w1\<lparr>objects := (objects w1)(obj := (objects w1 obj)\<lparr>spatialHashes := None\<rparr>)\<rparr>)))"

text \<open>
  \<^verbatim>\<open>update(object) { this.delete(object).add(object); }\<close>: the method call on the value
  that \<^verbatim>\<open>delete\<close> returned throws a \<^verbatim>\<open>TypeError\<close> when that value is \<^verbatim>\<open>undefined\<close>.
\<close>

definition update :: "ref \<Rightarrow> world \<Rightarrow> error option \<times> world" where
  "update obj w =
     (case delete obj w of
        (Undefined, w1) \<Rightarrow> (Some TypeError, w1)
      | (This, w1) \<Rightarrow> (None, add obj w1))"

text \<open>
  \<^verbatim>\<open>query\<close>: \<^verbatim>\<open>hashes.forEach\<close> throws a \<^verbatim>\<open>TypeError\<close> when the object has no
  \<^verbatim>\<open>__spatialHashes\<close>; otherwise every member of every bucket named by a key, the object
  itself excepted, is added to the result.
\<close>

definition query_step :: "ref \<Rightarrow> world \<Rightarrow> key \<Rightarrow> ref set \<Rightarrow> ref set" where
  "query_step obj w h objs =
     (case table w h of None \<Rightarrow> objs | Some b \<Rightarrow> objs \<union> (b - {obj}))"

definition query :: "ref \<Rightarrow> world \<Rightarrow> error + ref set" where
  "query obj w =
     (case spatialHashes (objects w obj) of
        None \<Rightarrow> Inl TypeError
      | Some hashes \<Rightarrow> Inr (fold (query_step obj w) hashes {}))"

section \<open>Callers, covering sets and invariants\<close>

text \<open>
  The objects belong to the caller, who may assign their bounding box between two calls
  of the index; \<open>move\<close> is that assignment. It does not touch \<^verbatim>\<open>__spatialHashes\<close>.
\<close>

definition move :: "ref \<Rightarrow> real \<Rightarrow> real \<Rightarrow> real \<Rightarrow> real \<Rightarrow> world \<Rightarrow> world" where
  "move obj x y wd ht w =
     w\<lparr>objects := (objects w)(obj := (objects w obj)\<lparr>obj_x := x, obj_y := y, obj_width := wd, obj_height := ht\<rparr>)\<rparr>"

text \<open>A caller's calls, and the world after each of them, whether it returned or threw.\<close>

datatype call = Add ref | Delete ref | Update ref | Move ref real real real real

fun step :: "call \<Rightarrow> world \<Rightarrow> world" where
  "step (Add obj) w = add obj w"
| "step (Delete obj) w = snd (delete obj w)"
| "step (Update obj) w = snd (update obj w)"
| "step (Move obj x y wd ht) w = move obj x y wd ht w"

fun run :: "call list \<Rightarrow> world \<Rightarrow> world" where
  "run [] w = w"
| "run (c # cs) w = run cs (step c w)"

text \<open>An object is tracked when it carries \<^verbatim>\<open>__spatialHashes\<close>.\<close>

definition tracked :: "ref \<Rightarrow> world \<Rightarrow> bool" where
  "tracked obj w = (spatialHashes (objects w obj) \<noteq> None)"

text \<open>The membership set of an object: the keys recorded on it (none when untracked).\<close>

definition membership :: "ref \<Rightarrow> world \<Rightarrow> key set" where
  "membership obj w = (case spatialHashes (objects w obj) of None \<Rightarrow> {} | Some hashes \<Rightarrow> set hashes)"

text \<open>
  I4: the recorded membership set is the one \<^verbatim>\<open>getHashFromObject\<close> computes from the
  object's current bounding box.
\<close>

definition current :: "ref \<Rightarrow> world \<Rightarrow> bool" where
  "current obj w = (spatialHashes (objects w obj) = Some (getHashFromObject (objects w obj) w))"

text \<open>
  Every \<^verbatim>\<open>add\<close> of the sequence is given an object that, at that moment, is untracked
  or carries the membership set of its current bounding box.
\<close>

fun adds_fresh :: "call list \<Rightarrow> world \<Rightarrow> bool" where
  "adds_fresh [] w = True"
| "adds_fresh (Add obj # cs) w =
     ((\<not> tracked obj w \<or> current obj w) \<and> adds_fresh cs (step (Add obj) w))"
| "adds_fresh (c # cs) w = adds_fresh cs (step c w)"

text \<open>
  The covering set of the specification (section 4.1, covering-set computation): the
  cell coordinates \<open>(cx, cy)\<close> that the two loops of \<^verbatim>\<open>getHashFromObject\<close> visit, before
  they are encoded as keys.
\<close>

definition covering_cells :: "object \<Rightarrow> world \<Rightarrow> (int \<times> int) list" where
  "covering_cells ob w =
     concat (map (\<lambda>x. map (\<lambda>y. (x, y)) (for_range (minY ob w) (maxY ob w)))
               (for_range (minX ob w) (maxX ob w)))"

text \<open>The bucket a key names: the members of its \<^verbatim>\<open>Set\<close>, none when the table has no such key.\<close>

definition bucket :: "(key \<rightharpoonup> ref set) \<Rightarrow> key \<Rightarrow> ref set" where
  "bucket t h = (case t h of None \<Rightarrow> {} | Some b \<Rightarrow> b)"

text \<open>
  The invariants of the specification (section 3). I1: every key in an object's
  membership set names a bucket that contains the object. I2: every object in a bucket
  has the bucket's key in its membership set. I3: the table holds no empty bucket.
\<close>

definition I1 :: "world \<Rightarrow> bool" where
  "I1 w = (\<forall>obj. \<forall>h \<in> membership obj w. obj \<in> bucket (table w) h)"

definition I2 :: "world \<Rightarrow> bool" where
  "I2 w = (\<forall>h. \<forall>obj \<in> bucket (table w) h. h \<in> membership obj w)"

definition I3 :: "world \<Rightarrow> bool" where
  "I3 w = (\<forall>h. table w h \<noteq> Some {})"

definition invariants :: "world \<Rightarrow> bool" where
  "invariants w = (I1 w \<and> I2 w \<and> I3 w)"

text \<open>I1 for one object: each of its recorded keys names a bucket that holds it.\<close>

definition consistent :: "ref \<Rightarrow> world \<Rightarrow> bool" where
  "consistent obj w = (\<forall>h \<in> membership obj w. obj \<in> bucket (table w) h)"

text \<open>What one pass of the loop body of \<^verbatim>\<open>delete\<close> leaves of a table entry.\<close>

definition shrink :: "ref \<Rightarrow> ref set option \<Rightarrow> ref set option" where
  "shrink obj e = (case e of None \<Rightarrow> None | Some b \<Rightarrow> if b - {obj} = {} then None else Some (b - {obj}))"

section \<open>Concrete objects and indexes\<close>

text \<open>An object fresh from the caller: a bounding box and no \<^verbatim>\<open>__spatialHashes\<close>.\<close>

definition box :: "real \<Rightarrow> real \<Rightarrow> real \<Rightarrow> real \<Rightarrow> object" where
  "box x y wd ht = \<lparr>obj_x = x, obj_y = y, obj_width = wd, obj_height = ht, spatialHashes = None\<rparr>"

text \<open>The index that \<^verbatim>\<open>new DynamicSpatialHash()\<close> builds over a store of objects.\<close>

definition empty_index :: "(ref \<Rightarrow> object) \<Rightarrow> world" where
  "empty_index objs =
     \<lparr>cellSize = Finite (1 / 32), overflow = 0, table = Map.empty, objects = objs\<rparr>"

text \<open>
  The scenario of the specification (section 8): reference 0 is
  \<^verbatim>\<open>A = {x:10, y:20, width:32, height:32}\<close>, every other reference is an object like
  \<^verbatim>\<open>B = {x:200, y:200, width:10, height:10}\<close>; \<^verbatim>\<open>B\<close> itself is reference 1.
\<close>

definition scenario_objects :: "ref \<Rightarrow> object" where
  "scenario_objects = (\<lambda>r. box 200 200 10 10)(0 := box 10 20 32 32)"

text \<open>Two small objects inside the cells (0,0) and (1,1) of a 32-unit grid.\<close>

definition diagonal_objects :: "ref \<Rightarrow> object" where
  "diagonal_objects = (\<lambda>r. box 48 48 8 8)(0 := box 16 16 8 8)"

section \<open>The cell bounds with rounding\<close>

text \<open>
  In the program every arithmetic result is rounded to a double. The definitions of this
  section restate the reciprocal stored by the setter and the bounds and loops of
  \<^verbatim>\<open>getHashFromObject\<close> with each arithmetic result passed through a rounding function
  \<open>rnd\<close>. With \<open>rnd\<close> the identity they are the exact computations above; with \<open>rnd\<close>
  the rounding of doubles they are the program's.
\<close>









section \<open>The loops of the operations\<close>

lemma add_step_eq: "add_step obj h t = t(h \<mapsto> insert obj (bucket t h))"
  by (auto simp: add_step_def bucket_def Let_def split: option.splits)

lemma fold_add_step:
  "fold (add_step obj) hs t k = (if k \<in> set hs then Some (insert obj (bucket t k)) else t k)"
proof (induction hs arbitrary: t)
  case Nil
  show ?case by simp
next
  case (Cons h hs)
  have "fold (add_step obj) (h # hs) t k = fold (add_step obj) hs (t(h \<mapsto> insert obj (bucket t h))) k"
    by (simp add: add_step_eq)
  also have "\<dots> = (if k \<in> set hs then Some (insert obj (bucket (t(h \<mapsto> insert obj (bucket t h))) k))
                   else (t(h \<mapsto> insert obj (bucket t h))) k)"
    by (rule Cons.IH)
  also have "\<dots> = (if k \<in> set (h # hs) then Some (insert obj (bucket t k)) else t k)"
    by (auto simp: bucket_def)
  finally show ?case .
qed

lemma delete_step_frame:
  "objects (delete_step obj h w) = objects w"
  "cellSize (delete_step obj h w) = cellSize w"
  "overflow (delete_step obj h w) = overflow w"
  by (simp_all add: delete_step_def clear_def Let_def split: option.splits)

lemma delete_step_table:
  "table (delete_step obj h w) k = (if k = h then shrink obj (table w h) else table w k)"
  by (simp add: delete_step_def clear_def shrink_def Let_def split: option.splits)

lemma fold_delete_step_frame:
  "objects (fold (delete_step obj) hs w) = objects w"
  "cellSize (fold (delete_step obj) hs w) = cellSize w"
  "overflow (fold (delete_step obj) hs w) = overflow w"
  by (induction hs arbitrary: w) (simp_all add: delete_step_frame)

lemma shrink_idem: "shrink obj (shrink obj e) = shrink obj e"
  by (auto simp: shrink_def split: option.splits)

lemma fold_delete_step_table:
  "table (fold (delete_step obj) hs w) k = (if k \<in> set hs then shrink obj (table w k) else table w k)"
  by (induction hs arbitrary: w) (simp_all add: delete_step_table shrink_idem)

lemma fold_query_step:
  "fold (query_step obj w) hs acc = acc \<union> (\<Union>h \<in> set hs. bucket (table w) h - {obj})"
  by (induction hs arbitrary: acc) (auto simp: query_step_def bucket_def split: option.splits)

lemma getHashFromObject_cong:
  "obj_x ob' = obj_x ob \<Longrightarrow> obj_y ob' = obj_y ob \<Longrightarrow> obj_width ob' = obj_width ob \<Longrightarrow>
   obj_height ob' = obj_height ob \<Longrightarrow> cellSize w' = cellSize w \<Longrightarrow> overflow w' = overflow w \<Longrightarrow>
   getHashFromObject ob' w' = getHashFromObject ob w"
  by (simp add: getHashFromObject_def minX_def maxX_def minY_def maxY_def split: number.splits)

lemma set_fold_set_add:
  "set (fold (\<lambda>y hashes. set_add (f y) hashes) ys acc) = f ` set ys \<union> set acc"
  by (induction ys arbitrary: acc) (auto simp: set_add_def)


lemma set_fold_fold_set_add:
  "set (fold (\<lambda>x hashes. fold (\<lambda>y hashes. set_add (f x y) hashes) ys hashes) xs acc)
     = (\<Union>x \<in> set xs. f x ` set ys) \<union> set acc"
  by (induction xs arbitrary: acc) (auto simp: set_fold_set_add)


lemma set_getHashFromObject:
  "set (getHashFromObject ob w) = (\<lambda>(x, y). hash x y) ` set (covering_cells ob w)"
  by (auto simp: getHashFromObject_def covering_cells_def set_fold_fold_set_add)



lemma add_frame:
  "cellSize (add obj w) = cellSize w" "overflow (add obj w) = overflow w"
  by (simp_all add: add_def Let_def)

lemma add_objects:
  "objects (add obj w) =
     (objects w)(obj := (objects w obj)\<lparr>spatialHashes := Some (getHashFromObject (objects w obj) w)\<rparr>)"
  by (simp add: add_def Let_def)

lemma add_table:
  "table (add obj w) k =
     (if k \<in> set (getHashFromObject (objects w obj) w)
      then Some (insert obj (bucket (table w) k)) else table w k)"
  by (simp add: add_def Let_def fold_add_step)

lemma add_bucket:
  "bucket (table (add obj w)) k =
     (if k \<in> set (getHashFromObject (objects w obj) w)
      then insert obj (bucket (table w) k) else bucket (table w) k)"
  by (simp add: bucket_def add_table)

lemma add_membership:
  "membership x (add obj w) =
     (if x = obj then set (getHashFromObject (objects w obj) w) else membership x w)"
  by (simp add: membership_def add_objects)

lemma delete_untracked: "\<not> tracked obj w \<Longrightarrow> delete obj w = (Undefined, w)"
  by (simp add: delete_def tracked_def)

lemma delete_frame:
  "cellSize (snd (delete obj w)) = cellSize w" "overflow (snd (delete obj w)) = overflow w"
  by (simp_all add: delete_def Let_def fold_delete_step_frame split: option.splits)

lemma delete_objects:
  "objects (snd (delete obj w)) =
     (if tracked obj w then (objects w)(obj := (objects w obj)\<lparr>spatialHashes := None\<rparr>) else objects w)"
  by (simp add: delete_def tracked_def Let_def fold_delete_step_frame split: option.splits)

lemma delete_table:
  "table (snd (delete obj w)) k =
     (if k \<in> membership obj w then shrink obj (table w k) else table w k)"
  by (simp add: delete_def membership_def Let_def fold_delete_step_table split: option.splits)

lemma bucket_shrink:
  "(case shrink obj e of None \<Rightarrow> {} | Some b \<Rightarrow> b) = (case e of None \<Rightarrow> {} | Some b \<Rightarrow> b) - {obj}"
  by (auto simp: shrink_def split: option.splits)

lemma delete_bucket:
  "bucket (table (snd (delete obj w))) k =
     (if k \<in> membership obj w then bucket (table w) k - {obj} else bucket (table w) k)"
  by (simp add: bucket_def delete_table bucket_shrink)

lemma delete_membership:
  "membership x (snd (delete obj w)) = (if x = obj then {} else membership x w)"
  by (auto simp: membership_def delete_objects tracked_def)

lemma delete_not_tracked: "\<not> tracked obj (snd (delete obj w))"
  by (simp add: tracked_def delete_objects)

lemma untracked_membership: "\<not> tracked obj w \<Longrightarrow> membership obj w = {}"
  by (simp add: tracked_def membership_def)

lemma add_untracked_invariants:
  assumes "invariants w" and "\<not> tracked obj w"
  shows "invariants (add obj w)"
proof -
  from assms have m: "membership obj w = {}" by (simp add: untracked_membership)
  from assms(1) have i1: "I1 w" and i2: "I2 w" and i3: "I3 w" by (simp_all add: invariants_def)
  have "I1 (add obj w)"
    using i1 by (auto simp: I1_def add_membership add_bucket)
  moreover have "I2 (add obj w)"
    using i2 m by (auto simp: I2_def add_membership add_bucket split: if_splits)
  moreover have "I3 (add obj w)"
    using i3 by (auto simp: I3_def add_table)
  ultimately show ?thesis by (simp add: invariants_def)
qed

lemma delete_invariants:
  assumes "invariants w"
  shows "invariants (snd (delete obj w))"
proof -
  from assms have i1: "I1 w" and i2: "I2 w" and i3: "I3 w" by (simp_all add: invariants_def)
  have "I1 (snd (delete obj w))"
    using i1 by (auto simp: I1_def delete_membership delete_bucket)
  moreover have "I2 (snd (delete obj w))"
    using i2 by (auto simp: I2_def delete_membership delete_bucket split: if_splits)
  moreover have "I3 (snd (delete obj w))"
    using i3 by (auto simp: I3_def delete_table shrink_def split: option.splits)
  ultimately show ?thesis by (simp add: invariants_def)
qed

lemma update_snd:
  "snd (update obj w) = (if tracked obj w then add obj (snd (delete obj w)) else w)"
  by (auto simp: update_def tracked_def delete_def Let_def split: option.splits)

lemma update_fst:
  "fst (update obj w) = (if tracked obj w then None else Some TypeError)"
  by (auto simp: update_def tracked_def delete_def Let_def split: option.splits)

lemma update_invariants:
  "invariants w \<Longrightarrow> invariants (snd (update obj w))"
  by (simp add: update_snd add_untracked_invariants delete_invariants delete_not_tracked)

lemma move_membership: "membership x (move obj a b c d w) = membership x w"
  by (simp add: membership_def move_def)

lemma move_table: "table (move obj a b c d w) = table w"
  by (simp add: move_def)

lemma move_invariants: "invariants (move obj x y wd ht w) = invariants w"
  by (simp add: invariants_def I1_def I2_def I3_def move_membership move_table)

lemma getHashFromObject_after_delete:
  "getHashFromObject (objects (snd (delete obj w)) obj) (snd (delete obj w))
     = getHashFromObject (objects w obj) w"
  by (rule getHashFromObject_cong) (simp_all add: delete_objects delete_frame)

lemma consistent_entry:
  "consistent obj w \<Longrightarrow> h \<in> membership obj w \<Longrightarrow> \<exists>b. table w h = Some b \<and> obj \<in> b"
  by (auto simp: consistent_def bucket_def split: option.splits)

lemma shrink_neq: "obj \<in> b \<Longrightarrow> shrink obj (Some b) \<noteq> Some b"
  by (auto simp: shrink_def)

lemma update_table:
  "tracked obj w \<Longrightarrow>
   table (snd (update obj w)) k =
     (if k \<in> set (getHashFromObject (objects w obj) w)
      then Some (insert obj (bucket (table w) k))
      else if k \<in> membership obj w then shrink obj (table w k) else table w k)"
  by (simp add: update_snd add_table getHashFromObject_after_delete delete_bucket delete_table)

lemma update_objects:
  assumes "tracked obj w"
  shows "objects (snd (update obj w)) = objects (add obj w)"
proof -
  let ?d = "snd (delete obj w)"
  have "objects (snd (update obj w)) = objects (add obj ?d)"
    using assms by (simp add: update_snd)
  also have "\<dots> = (objects ?d)(obj := (objects ?d obj)
                 \<lparr>spatialHashes := Some (getHashFromObject (objects w obj) w)\<rparr>)"
    by (simp only: add_objects getHashFromObject_after_delete)
  also have "\<dots> = objects (add obj w)"
    using assms by (simp add: delete_objects add_objects)
  finally show ?thesis .
qed

lemma update_frame:
  "cellSize (snd (update obj w)) = cellSize w" "overflow (snd (update obj w)) = overflow w"
  by (simp_all add: update_snd add_frame delete_frame)

lemma update_eq_add_iff:
  assumes "tracked obj w" and "consistent obj w"
  shows "(snd (update obj w) = add obj w)
           = (membership obj w \<subseteq> set (getHashFromObject (objects w obj) w))"
proof
  assume eq: "snd (update obj w) = add obj w"
  show "membership obj w \<subseteq> set (getHashFromObject (objects w obj) w)"
  proof
    fix h assume h: "h \<in> membership obj w"
    show "h \<in> set (getHashFromObject (objects w obj) w)"
    proof (rule ccontr)
      assume n: "h \<notin> set (getHashFromObject (objects w obj) w)"
      from assms(2) h obtain b where b: "table w h = Some b" "obj \<in> b"
        by (blast dest: consistent_entry)
      from assms(1) h n have "table (snd (update obj w)) h = shrink obj (table w h)"
        by (simp add: update_table)
      moreover from n have "table (add obj w) h = table w h"
        by (simp add: add_table)
      ultimately have "shrink obj (Some b) = Some b"
        using eq b by simp
      with b(2) show False by (simp add: shrink_neq)
    qed
  qed
next
  assume sub: "membership obj w \<subseteq> set (getHashFromObject (objects w obj) w)"
  have "table (snd (update obj w)) = table (add obj w)"
  proof
    fix k
    show "table (snd (update obj w)) k = table (add obj w) k"
      using assms(1) sub by (auto simp: update_table add_table)
  qed
  moreover have "world.more (snd (update obj w)) = world.more (add obj w)"
    by simp
  ultimately show "snd (update obj w) = add obj w"
    using assms(1) by (intro world.equality) (simp_all add: update_objects update_frame add_frame)
qed

lemma record_same: "spatialHashes r = v \<Longrightarrow> r\<lparr>spatialHashes := v\<rparr> = r"
  by (cases r) simp

lemma add_current_noop:
  assumes "current obj w" and "consistent obj w"
  shows "add obj w = w"
proof -
  from assms(1) have m: "membership obj w = set (getHashFromObject (objects w obj) w)"
    by (simp add: current_def membership_def)
  have "table (add obj w) = table w"
  proof
    fix k
    show "table (add obj w) k = table w k"
    proof (cases "k \<in> set (getHashFromObject (objects w obj) w)")
      case True
      with m assms(2) obtain b where "table w k = Some b" "obj \<in> b"
        by (blast dest: consistent_entry)
      with True show ?thesis by (simp add: add_table bucket_def insert_absorb)
    next
      case False
      then show ?thesis by (simp add: add_table)
    qed
  qed
  moreover from assms(1) have "objects (add obj w) = objects w"
    by (simp add: add_objects current_def record_same)
  ultimately show ?thesis
    by (intro world.equality) (simp_all add: add_frame)
qed

lemma add_makes_current: "current obj (add obj w)"
proof -
  have "getHashFromObject (objects (add obj w) obj) (add obj w) = getHashFromObject (objects w obj) w"
    by (rule getHashFromObject_cong) (simp_all add: add_objects add_frame)
  then show ?thesis by (simp add: current_def add_objects)
qed

lemma add_makes_consistent: "consistent obj (add obj w)"
  by (simp add: consistent_def add_membership add_bucket)

lemma add_makes_tracked: "tracked obj (add obj w)"
  by (simp add: tracked_def add_objects)


lemma current_membership_eq:
  "current obj w \<Longrightarrow> membership obj w = set (getHashFromObject (objects w obj) w)"
  by (simp add: current_def membership_def)

lemma update_pair: "update obj w = (fst (update obj w), snd (update obj w))"
  by simp

lemma add_fresh_invariants:
  assumes "invariants w" and "\<not> tracked obj w \<or> current obj w"
  shows "invariants (add obj w)"
proof (cases "tracked obj w")
  case False
  with assms(1) show ?thesis by (simp add: add_untracked_invariants)
next
  case True
  with assms(2) have c: "current obj w" by simp
  from assms(1) have "consistent obj w" by (simp add: invariants_def I1_def consistent_def)
  with c have "add obj w = w" by (rule add_current_noop)
  with assms(1) show ?thesis by simp
qed

lemma step_invariants:
  "invariants w \<Longrightarrow> adds_fresh (c # cs) w \<Longrightarrow> invariants (step c w)"
  by (cases c)
     (simp_all add: add_fresh_invariants delete_invariants update_invariants move_invariants)

lemma adds_fresh_tail: "adds_fresh (c # cs) w \<Longrightarrow> adds_fresh cs (step c w)"
  by (cases c) simp_all

lemma run_invariants:
  "invariants w \<Longrightarrow> adds_fresh cs w \<Longrightarrow> invariants (run cs w)"
proof (induction cs arbitrary: w)
  case Nil
  then show ?case by simp
next
  case (Cons c cs)
  from Cons.prems have "invariants (step c w)" by (rule step_invariants)
  moreover from Cons.prems(2) have "adds_fresh cs (step c w)" by (rule adds_fresh_tail)
  ultimately have "invariants (run cs (step c w))" by (rule Cons.IH)
  then show ?case by simp
qed

section \<open>The key encoding\<close>

text \<open>
  C4. The encoding is symmetric in its two arguments, maps every diagonal pair to key 0,
  and therefore sends the distinct cells (0,0) and (6,6) to the same key.
\<close>

theorem hash_symmetric:
  "hash x y = hash y x \<and> hash c c = 0 \<and> hash 0 0 = hash 6 6 \<and> ((0::int), (0::int)) \<noteq> (6, 6)"
  by (simp add: hash_def xor.commute)

section \<open>Invariants along a caller's calls\<close>

lemma new_DynamicSpatialHash_32:
  "new_DynamicSpatialHash (JSNumber 32) objs = Inr (empty_index objs)"
  by (simp add: new_DynamicSpatialHash_def set_cellSize_def empty_index_def)

lemma new_DynamicSpatialHash_fields:
  "new_DynamicSpatialHash v objs = Inr w \<Longrightarrow>
     table w = Map.empty \<and> objects w = objs \<and> overflow w = 0"
  by (auto simp: new_DynamicSpatialHash_def set_cellSize_def Let_def split: jsvalue.splits if_splits)

lemma empty_table_invariants:
  "table w = Map.empty \<Longrightarrow> \<forall>obj. spatialHashes (objects w obj) = None \<Longrightarrow> invariants w"
  by (simp add: invariants_def I1_def I2_def I3_def membership_def bucket_def)

lemma scenario_untracked: "\<forall>obj. spatialHashes (scenario_objects obj) = None"
  by (simp add: scenario_objects_def box_def)

lemma diagonal_untracked: "\<forall>obj. spatialHashes (diagonal_objects obj) = None"
  by (simp add: diagonal_objects_def box_def)

lemma scenario_calls_adds_fresh:
  "adds_fresh
     [Add 0, Add 0, Add 1, Move 0 200 205 32 32, Update 0, Update 2, Delete 1, Delete 1, Add 1]
     (empty_index scenario_objects)"
  by code_simp

text \<open>
  C2 (as amended). Start from a freshly constructed index over objects none of which
  carries \<^verbatim>\<open>__spatialHashes\<close>. After any finite sequence of \<^verbatim>\<open>add\<close>, \<^verbatim>\<open>delete\<close> and
  \<^verbatim>\<open>update\<close> calls, interleaved with any assignments to the objects' bounding boxes, in
  which every \<^verbatim>\<open>add\<close> is given an object that at that moment is untracked or carries the
  membership set of its current bounding box, the invariants I1, I2 and I3 hold.
\<close>

theorem invariants_preserved:
  assumes "new_DynamicSpatialHash v objs = Inr w0"
    and "\<forall>obj. spatialHashes (objs obj) = None"
    and "adds_fresh cs w0"
  shows "I1 (run cs w0) \<and> I2 (run cs w0) \<and> I3 (run cs w0)"
proof -
  from assms(1) have "table w0 = Map.empty" and "objects w0 = objs"
    by (simp_all add: new_DynamicSpatialHash_fields)
  with assms(2) have "invariants w0"
    by (simp add: empty_table_invariants)
  then have "invariants (run cs w0)"
    using assms(3) by (rule run_invariants)
  then show ?thesis by (simp add: invariants_def)
qed

theorem invariants_preserved_witness:
  "new_DynamicSpatialHash (JSNumber 32) scenario_objects = Inr (empty_index scenario_objects)
   \<and> adds_fresh
       [Add 0, Add 0, Add 1, Move 0 200 205 32 32, Update 0, Update 2, Delete 1, Delete 1, Add 1]
       (empty_index scenario_objects)
   \<and> I1 (run [Add 0, Add 0, Add 1, Move 0 200 205 32 32, Update 0, Update 2, Delete 1, Delete 1, Add 1]
       (empty_index scenario_objects))
   \<and> I2 (run [Add 0, Add 0, Add 1, Move 0 200 205 32 32, Update 0, Update 2, Delete 1, Delete 1, Add 1]
       (empty_index scenario_objects))
   \<and> I3 (run [Add 0, Add 0, Add 1, Move 0 200 205 32 32, Update 0, Update 2, Delete 1, Delete 1, Add 1]
       (empty_index scenario_objects))"
  using invariants_preserved
          [OF new_DynamicSpatialHash_32 scenario_untracked scenario_calls_adds_fresh]
        new_DynamicSpatialHash_32 [of scenario_objects] scenario_calls_adds_fresh
  by simp

text \<open>
  Counterexample to C2 as stated: \<^verbatim>\<open>add\<close>, a move of the object into the next cell, and a second
  \<^verbatim>\<open>add\<close> leave the object in the bucket of key 0 although its membership set no longer
  has that key.
\<close>

theorem double_add_counterexample:
  "new_DynamicSpatialHash (JSNumber 32) diagonal_objects = Inr (empty_index diagonal_objects)
   \<and> \<not> I2 (run [Add 0, Move 0 16 48 8 8, Add 0] (empty_index diagonal_objects))"
proof -
  let ?w = "run [Add 0, Move 0 16 48 8 8, Add 0] (empty_index diagonal_objects)"
  have "(0::ref) \<in> bucket (table ?w) 0" by code_simp
  moreover have "(0::key) \<notin> membership 0 ?w" by code_simp
  ultimately have "\<not> I2 ?w" unfolding I2_def by blast
  then show ?thesis by (simp add: new_DynamicSpatialHash_32)
qed

section \<open>What a query returns\<close>

lemma query_tracked:
  "tracked a w \<Longrightarrow> query a w = Inr ((\<Union>h \<in> membership a w. bucket (table w) h) - {a})"
  by (auto simp: query_def tracked_def membership_def fold_query_step)

lemma current_membership:
  "current obj w \<Longrightarrow>
     membership obj w = (\<lambda>(x, y). hash x y) ` set (covering_cells (objects w obj) w)"
  by (simp add: current_def membership_def set_getHashFromObject)

lemma diagonal_invariants: "invariants (run [Add 0, Add 1] (empty_index diagonal_objects))"
proof -
  have "invariants (empty_index diagonal_objects)"
    by (rule empty_table_invariants) (simp_all add: empty_index_def diagonal_untracked)
  moreover have "adds_fresh [Add 0, Add 1] (empty_index diagonal_objects)"
    by code_simp
  ultimately show ?thesis by (rule run_invariants)
qed

text \<open>
  C1 (as amended). In a world that satisfies I1 and I2, the query of a tracked object
  \<open>a\<close> returns exactly the tracked objects other than \<open>a\<close> whose membership set (a set of
  bucket keys, the image of the covering set under \<open>hash\<close>) shares a key with the
  membership set of \<open>a\<close>. When both membership sets are current, covering sets that share
  a cell give membership sets that share a key; the converse is what fails.
\<close>

theorem query_exact:
  assumes i1: "I1 w" and i2: "I2 w" and "tracked a w"
  shows "query a w = Inr {b. b \<noteq> a \<and> tracked b w \<and> membership a w \<inter> membership b w \<noteq> {}}
       \<and> (\<forall>b. current a w \<and> current b w \<and>
              set (covering_cells (objects w a) w) \<inter> set (covering_cells (objects w b) w) \<noteq> {}
              \<longrightarrow> membership a w \<inter> membership b w \<noteq> {})"
proof
  have "(\<Union>h \<in> membership a w. bucket (table w) h) - {a}
          = {b. b \<noteq> a \<and> tracked b w \<and> membership a w \<inter> membership b w \<noteq> {}}" (is "?L = ?R")
  proof (rule set_eqI)
    fix b
    show "b \<in> ?L \<longleftrightarrow> b \<in> ?R"
    proof
      assume "b \<in> ?L"
      then obtain h where h: "h \<in> membership a w" "b \<in> bucket (table w) h" "b \<noteq> a" by auto
      from i2 h(2) have hb: "h \<in> membership b w" by (auto simp: I2_def)
      then have "tracked b w" by (auto simp: membership_def tracked_def split: option.splits)
      with h hb show "b \<in> ?R" by auto
    next
      assume "b \<in> ?R"
      then obtain h where h: "h \<in> membership a w" "h \<in> membership b w" "b \<noteq> a" by auto
      from i1 h(2) have "b \<in> bucket (table w) h" by (auto simp: I1_def)
      with h show "b \<in> ?L" by auto
    qed
  qed
  with assms(3) show "query a w = Inr ?R" by (simp add: query_tracked)
next
  show "\<forall>b. current a w \<and> current b w \<and>
              set (covering_cells (objects w a) w) \<inter> set (covering_cells (objects w b) w) \<noteq> {}
              \<longrightarrow> membership a w \<inter> membership b w \<noteq> {}"
    by (auto simp: current_membership)
qed

theorem query_exact_witness:
  "I1 (run [Add 0, Add 1] (empty_index diagonal_objects))
   \<and> I2 (run [Add 0, Add 1] (empty_index diagonal_objects))
   \<and> tracked 0 (run [Add 0, Add 1] (empty_index diagonal_objects))
   \<and> membership 0 (run [Add 0, Add 1] (empty_index diagonal_objects))
       \<inter> membership 1 (run [Add 0, Add 1] (empty_index diagonal_objects)) = {0}
   \<and> query 0 (run [Add 0, Add 1] (empty_index diagonal_objects))
       = Inr {b. b \<noteq> 0 \<and> tracked b (run [Add 0, Add 1] (empty_index diagonal_objects))
               \<and> membership 0 (run [Add 0, Add 1] (empty_index diagonal_objects))
                 \<inter> membership b (run [Add 0, Add 1] (empty_index diagonal_objects)) \<noteq> {}}"
proof -
  let ?w = "run [Add 0, Add 1] (empty_index diagonal_objects)"
  have t0: "tracked 0 ?w" by code_simp
  have m: "membership 0 ?w \<inter> membership 1 ?w = {0}" by code_simp
  from diagonal_invariants have i1: "I1 ?w" and i2: "I2 ?w"
    by (simp_all add: invariants_def)
  from query_exact [OF i1 i2 t0] have
    "query 0 ?w = Inr {b. b \<noteq> 0 \<and> tracked b ?w \<and> membership 0 ?w \<inter> membership b ?w \<noteq> {}}"
    by simp
  with i1 i2 t0 m show ?thesis by simp
qed

text \<open>
  Counterexample to C1 as stated: the covering sets of two tracked objects, one inside cell (0,0)
  and one inside cell (1,1), share no cell, yet each is returned by the query of the
  other, because both cells are encoded as key 0.
\<close>

theorem collision_counterexample:
  "set (covering_cells (objects (run [Add 0, Add 1] (empty_index diagonal_objects)) 0)
          (run [Add 0, Add 1] (empty_index diagonal_objects)))
     \<inter> set (covering_cells (objects (run [Add 0, Add 1] (empty_index diagonal_objects)) 1)
          (run [Add 0, Add 1] (empty_index diagonal_objects))) = {}
   \<and> current 0 (run [Add 0, Add 1] (empty_index diagonal_objects))
   \<and> current 1 (run [Add 0, Add 1] (empty_index diagonal_objects))
   \<and> query 0 (run [Add 0, Add 1] (empty_index diagonal_objects)) = Inr {1}
   \<and> query 1 (run [Add 0, Add 1] (empty_index diagonal_objects)) = Inr {0}"
  by code_simp

section \<open>The scenario of the specification\<close>

text \<open>
  C3 (as amended). With cell size 32 and overflow 0, \<open>A\<close> covers the cells with
  \<open>cx \<in> {-1, 0}\<close> and \<open>cy \<in> {0, 1}\<close> and \<open>B\<close> covers the cell (6,6). The two
  covering sets share no cell, but the cells (0,0) and (6,6) are both encoded as key 0,
  so after the two \<^verbatim>\<open>add\<close> calls \<^verbatim>\<open>query(A)\<close> is \<open>{B}\<close> and \<^verbatim>\<open>query(B)\<close> is \<open>{A}\<close>. After
  \<open>A\<close> is moved to \<^verbatim>\<open>{x:200, y:205, width:32, height:32}\<close> and updated, \<^verbatim>\<open>query(A)\<close> is
  \<open>{B}\<close> and \<^verbatim>\<open>query(B)\<close> is \<open>{A}\<close>.
\<close>

theorem scenario_as_run:
  "new_DynamicSpatialHash (JSNumber 32) scenario_objects = Inr (empty_index scenario_objects)
   \<and> covering_cells (scenario_objects 0) (empty_index scenario_objects)
       = [(-1, 0), (-1, 1), (0, 0), (0, 1)]
   \<and> covering_cells (scenario_objects 1) (empty_index scenario_objects) = [(6, 6)]
   \<and> membership 0 (run [Add 0, Add 1] (empty_index scenario_objects))
       = {hash (-1) 0, hash (-1) 1, 0, hash 0 1}
   \<and> membership 1 (run [Add 0, Add 1] (empty_index scenario_objects)) = {0}
   \<and> query 0 (run [Add 0, Add 1] (empty_index scenario_objects)) = Inr {1}
   \<and> query 1 (run [Add 0, Add 1] (empty_index scenario_objects)) = Inr {0}
   \<and> fst (update 0 (run [Add 0, Add 1, Move 0 200 205 32 32] (empty_index scenario_objects)))
       = None
   \<and> query 0 (run [Add 0, Add 1, Move 0 200 205 32 32, Update 0] (empty_index scenario_objects))
       = Inr {1}
   \<and> query 1 (run [Add 0, Add 1, Move 0 200 205 32 32, Update 0] (empty_index scenario_objects))
       = Inr {0}"
proof -
  have "covering_cells (scenario_objects 0) (empty_index scenario_objects)
       = [(-1, 0), (-1, 1), (0, 0), (0, 1)]
   \<and> covering_cells (scenario_objects 1) (empty_index scenario_objects) = [(6, 6)]
   \<and> membership 0 (run [Add 0, Add 1] (empty_index scenario_objects))
       = {hash (-1) 0, hash (-1) 1, 0, hash 0 1}
   \<and> membership 1 (run [Add 0, Add 1] (empty_index scenario_objects)) = {0}
   \<and> query 0 (run [Add 0, Add 1] (empty_index scenario_objects)) = Inr {1}
   \<and> query 1 (run [Add 0, Add 1] (empty_index scenario_objects)) = Inr {0}
   \<and> fst (update 0 (run [Add 0, Add 1, Move 0 200 205 32 32] (empty_index scenario_objects)))
       = None
   \<and> query 0 (run [Add 0, Add 1, Move 0 200 205 32 32, Update 0] (empty_index scenario_objects))
       = Inr {1}
   \<and> query 1 (run [Add 0, Add 1, Move 0 200 205 32 32, Update 0] (empty_index scenario_objects))
       = Inr {0}"
    by code_simp
  then show ?thesis by (simp add: new_DynamicSpatialHash_32)
qed

text \<open>
  Counterexample to C3 as stated: the rows of \<open>A\<close> reach \<open>cy = 1\<close>, and before the move
  neither query is empty.
\<close>

theorem scenario_counterexample:
  "maxY (scenario_objects 0) (empty_index scenario_objects) = Some 1
   \<and> query 0 (run [Add 0, Add 1] (empty_index scenario_objects)) \<noteq> Inr {}
   \<and> query 1 (run [Add 0, Add 1] (empty_index scenario_objects)) \<noteq> Inr {}"
  by code_simp

section \<open>add on a tracked object, update twice\<close>

text \<open>
  C5 (as amended). For a tracked object whose membership set is consistent with the
  table, \<^verbatim>\<open>add\<close> leaves the same world as \<^verbatim>\<open>update\<close> exactly when every key of the
  recorded membership set is among the keys computed from the current bounding box. That
  is so whenever the membership set is current (bounding box, cell size and overflow
  unchanged since the object was indexed), and then both calls change nothing. In that
  case \<^verbatim>\<open>add\<close> preserves I1, I2 and I3.
\<close>

theorem add_equals_update:
  assumes "tracked obj w" and "consistent obj w"
  shows "((update obj w = (None, add obj w))
            = (membership obj w \<subseteq> set (getHashFromObject (objects w obj) w)))
       \<and> (current obj w \<longrightarrow> update obj w = (None, w) \<and> add obj w = w)
       \<and> (invariants w \<and> membership obj w \<subseteq> set (getHashFromObject (objects w obj) w)
            \<longrightarrow> invariants (add obj w))"
proof (intro conjI impI)
  have "(update obj w = (None, add obj w)) = (snd (update obj w) = add obj w)"
    using assms(1) by (subst update_pair) (simp add: update_fst del: prod.collapse)
  then show "(update obj w = (None, add obj w))
            = (membership obj w \<subseteq> set (getHashFromObject (objects w obj) w))"
    using assms by (simp add: update_eq_add_iff)
next
  assume c: "current obj w"
  then show "add obj w = w" using assms(2) by (rule add_current_noop)
next
  assume c: "current obj w"
  then have "snd (update obj w) = add obj w"
    using assms by (simp add: update_eq_add_iff current_membership_eq)
  also have "\<dots> = w" using c assms(2) by (rule add_current_noop)
  finally show "update obj w = (None, w)"
    using assms(1) by (subst update_pair) (simp add: update_fst del: prod.collapse)
next
  assume "invariants w \<and> membership obj w \<subseteq> set (getHashFromObject (objects w obj) w)"
  then have "invariants w" and "snd (update obj w) = add obj w"
    using assms by (simp_all add: update_eq_add_iff)
  then show "invariants (add obj w)"
    using update_invariants [of w obj] by simp
qed

theorem add_equals_update_witness:
  "tracked 0 (run [Add 0, Add 1] (empty_index scenario_objects))
   \<and> consistent 0 (run [Add 0, Add 1] (empty_index scenario_objects))
   \<and> current 0 (run [Add 0, Add 1] (empty_index scenario_objects))
   \<and> update 0 (run [Add 0, Add 1] (empty_index scenario_objects))
       = (None, run [Add 0, Add 1] (empty_index scenario_objects))
   \<and> add 0 (run [Add 0, Add 1] (empty_index scenario_objects))
       = run [Add 0, Add 1] (empty_index scenario_objects)"
proof -
  let ?w = "run [Add 0, Add 1] (empty_index scenario_objects)"
  have t: "tracked 0 ?w" by code_simp
  have c: "consistent 0 ?w" by code_simp
  have k: "current 0 ?w" by code_simp
  from add_equals_update [OF t c] k t c show ?thesis by simp
qed

text \<open>
  Counterexample to C5 as stated: once the tracked object has moved into the next cell,
  \<^verbatim>\<open>update\<close> removes the bucket of key 0 while \<^verbatim>\<open>add\<close> keeps the object in it, with a
  membership set that no longer has key 0.
\<close>

theorem stale_add_counterexample:
  "tracked 0 (run [Add 0, Move 0 16 48 8 8] (empty_index diagonal_objects))
   \<and> consistent 0 (run [Add 0, Move 0 16 48 8 8] (empty_index diagonal_objects))
   \<and> table (snd (update 0 (run [Add 0, Move 0 16 48 8 8] (empty_index diagonal_objects)))) 0 = None
   \<and> table (add 0 (run [Add 0, Move 0 16 48 8 8] (empty_index diagonal_objects))) 0 = Some {0}
   \<and> membership 0 (add 0 (run [Add 0, Move 0 16 48 8 8] (empty_index diagonal_objects)))
       = {hash 0 1}"
  by code_simp

text \<open>
  C9. For a tracked object, \<^verbatim>\<open>update\<close> returns normally, and a second \<^verbatim>\<open>update\<close> right
  after the first (so with the same bounding box) returns normally and leaves the world
  of the first: the membership set is the same and every query gives the same result.
\<close>

theorem update_idempotent:
  assumes "tracked a w"
  shows "fst (update a w) = None
       \<and> update a (snd (update a w)) = (None, snd (update a w))
       \<and> spatialHashes (objects (snd (update a (snd (update a w)))) a)
           = spatialHashes (objects (snd (update a w)) a)
       \<and> (\<forall>b. query b (snd (update a (snd (update a w)))) = query b (snd (update a w)))"
proof -
  let ?w1 = "snd (update a w)"
  from assms have w1: "?w1 = add a (snd (delete a w))" by (simp add: update_snd)
  have t: "tracked a ?w1" and c: "consistent a ?w1" and k: "current a ?w1"
    unfolding w1 by (rule add_makes_tracked, rule add_makes_consistent, rule add_makes_current)
  from t c k have "snd (update a ?w1) = add a ?w1"
    by (simp add: update_eq_add_iff current_membership_eq)
  also from k c have "\<dots> = ?w1" by (rule add_current_noop)
  finally have s: "snd (update a ?w1) = ?w1" .
  from t have "fst (update a ?w1) = None" by (simp add: update_fst)
  with s have "update a ?w1 = (None, ?w1)"
    by (subst update_pair) (simp del: prod.collapse)
  with assms s show ?thesis by (simp add: update_fst)
qed

theorem update_idempotent_witness:
  "tracked 0 (run [Add 0, Add 1, Move 0 200 205 32 32] (empty_index scenario_objects))
   \<and> update 0 (snd (update 0 (run [Add 0, Add 1, Move 0 200 205 32 32] (empty_index scenario_objects))))
       = (None, snd (update 0 (run [Add 0, Add 1, Move 0 200 205 32 32] (empty_index scenario_objects))))
   \<and> query 1 (snd (update 0 (snd (update 0
         (run [Add 0, Add 1, Move 0 200 205 32 32] (empty_index scenario_objects))))))
       = Inr {0}"
proof -
  let ?w = "run [Add 0, Add 1, Move 0 200 205 32 32] (empty_index scenario_objects)"
  have t: "tracked 0 ?w" by code_simp
  have q: "query 1 (snd (update 0 ?w)) = Inr {0}" by code_simp
  from update_idempotent [OF t] t q show ?thesis by simp
qed

section \<open>Untracked objects\<close>

text \<open>
  C6 at a failing input. On an object that was never added, \<^verbatim>\<open>delete\<close> changes nothing
  and returns \<^verbatim>\<open>undefined\<close>; \<^verbatim>\<open>update\<close> then throws a \<^verbatim>\<open>TypeError\<close> and leaves the
  object untracked, where \<^verbatim>\<open>add\<close> would have tracked it.
\<close>

theorem update_untracked_throws:
  "\<not> tracked 0 (empty_index scenario_objects)
   \<and> delete 0 (empty_index scenario_objects) = (Undefined, empty_index scenario_objects)
   \<and> update 0 (empty_index scenario_objects) = (Some TypeError, empty_index scenario_objects)
   \<and> tracked 0 (add 0 (empty_index scenario_objects))"
proof -
  have u: "\<not> tracked 0 (empty_index scenario_objects)" by code_simp
  have a: "tracked 0 (add 0 (empty_index scenario_objects))" by code_simp
  from u have d: "delete 0 (empty_index scenario_objects) = (Undefined, empty_index scenario_objects)"
    by (rule delete_untracked)
  then have "update 0 (empty_index scenario_objects) = (Some TypeError, empty_index scenario_objects)"
    by (simp add: update_def)
  with u a d show ?thesis by simp
qed

section \<open>The cell size\<close>

lemma set_cellSize_number:
  "0 < r \<Longrightarrow> set_cellSize (JSNumber r) w = (None, w\<lparr>cellSize := Finite (1 / r)\<rparr>)"
  by (simp add: set_cellSize_def)

lemma set_cellSize_throws:
  "\<not> typeof_number v \<Longrightarrow> set_cellSize v w = (Some TypeError, w)"
  "r \<le> 0 \<Longrightarrow> set_cellSize (JSNumber r) w = (Some RangeError, w)"
  "set_cellSize JSNegInfinity w = (Some RangeError, w)"
  by (cases v) (simp_all add: set_cellSize_def typeof_number_def)

text \<open>
  C7 at a failing input. \<^verbatim>\<open>NaN\<close> is a number that is not greater than 0, yet assigning it
  to \<^verbatim>\<open>cellSize\<close> does not throw: the stored cell size is replaced by \<^verbatim>\<open>NaN\<close>, and from then
  on \<^verbatim>\<open>getHashFromObject\<close> returns no key for any object.
\<close>

theorem set_cellSize_NaN_stored:
  "typeof_number JSNaN
   \<and> get_cellSize (empty_index scenario_objects) = Finite (1 / 32)
   \<and> set_cellSize JSNaN (empty_index scenario_objects)
       = (None, (empty_index scenario_objects)\<lparr>cellSize := NaN\<rparr>)
   \<and> get_cellSize (snd (set_cellSize JSNaN (empty_index scenario_objects))) = NaN
   \<and> getHashFromObject (scenario_objects 0)
        (snd (set_cellSize JSNaN (empty_index scenario_objects))) = []
   \<and> set_cellSize (JSNumber (- 5)) (empty_index scenario_objects)
       = (Some RangeError, empty_index scenario_objects)"
proof -
  have "getHashFromObject (scenario_objects 0)
          (snd (set_cellSize JSNaN (empty_index scenario_objects))) = []"
    by code_simp
  then show ?thesis
    by (simp add: set_cellSize_def typeof_number_def get_cellSize_def empty_index_def)
qed

text \<open>
  C10 (as amended). After a positive \<open>v\<close> is assigned to \<^verbatim>\<open>cellSize\<close>, reading
  \<^verbatim>\<open>cellSize\<close> gives the reciprocal \<open>1 / v\<close>, which is the value assigned only for
  \<open>v = 1\<close>; an index constructed with the default cell size reports \<open>1 / 32\<close>.
\<close>

theorem cellSize_round_trip:
  assumes "0 < v"
  shows "fst (set_cellSize (JSNumber v) w) = None
       \<and> get_cellSize (snd (set_cellSize (JSNumber v) w)) = Finite (1 / v)
       \<and> ((get_cellSize (snd (set_cellSize (JSNumber v) w)) = Finite v) = (v = 1))
       \<and> (\<exists>w0. new_DynamicSpatialHash JSUndefined objs = Inr w0
                \<and> get_cellSize w0 = Finite (1 / 32))"
proof -
  from assms have "(1 / v = v) = (v = 1)"
  proof -
    have "(1 / v = v) = (v * v = 1)" using assms by (auto simp: field_simps)
    also have "\<dots> = (v = 1)" using assms by (auto simp: square_eq_1_iff)
    finally show ?thesis .
  qed
  moreover have "new_DynamicSpatialHash JSUndefined objs = Inr (empty_index objs)"
    by (simp add: new_DynamicSpatialHash_def set_cellSize_def empty_index_def)
  moreover have "get_cellSize (empty_index objs) = Finite (1 / 32)"
    by (simp add: get_cellSize_def empty_index_def)
  ultimately show ?thesis
    using assms by (simp add: set_cellSize_number get_cellSize_def)
qed

theorem cellSize_round_trip_witness:
  "(0::real) < 32
   \<and> get_cellSize (snd (set_cellSize (JSNumber 32) (empty_index scenario_objects)))
       = Finite (1 / 32)
   \<and> get_cellSize (snd (set_cellSize (JSNumber 32) (empty_index scenario_objects))) \<noteq> Finite 32"
  using cellSize_round_trip [of 32 "empty_index scenario_objects" scenario_objects] by simp

text \<open>
  Counterexample to C10 as stated: for the valid cell size 1 the round trip does return
  the value that was set.
\<close>

theorem cellSize_one_counterexample:
  "fst (set_cellSize (JSNumber 1) (empty_index scenario_objects)) = None
   \<and> get_cellSize (snd (set_cellSize (JSNumber 1) (empty_index scenario_objects))) = Finite 1"
  by (simp add: set_cellSize_def get_cellSize_def)

section \<open>Cell size and the number of cells\<close>














end
